theory Spec2Isabelle
  imports Complex_Main "HOL-Library.Char_ord" "HOL-Library.List_Lexorder" "HOL-Library.Log_Nat"
begin

section \<open>Values shared by both scripts\<close>

text \<open>
  A Python float as the two scripts use it: only ordered comparisons against integer
  limits are ever made on it, so a float is a finite rational, one of the two infinities,
  or NaN. Every comparison with NaN is False, as in IEEE 754.
\<close>

datatype pyfloat = Finite rat | NaN | PosInf | NegInf

text \<open>\<^verbatim>\<open>x < k\<close> for a float \<open>x\<close> and an integer constant \<open>k\<close>.\<close>

fun float_lt :: "pyfloat \<Rightarrow> int \<Rightarrow> bool" where
  "float_lt (Finite x) k = (x < of_int k)"
| "float_lt NaN k = False"
| "float_lt PosInf k = False"
| "float_lt NegInf k = True"

text \<open>\<^verbatim>\<open>x > k\<close> for a float \<open>x\<close> and an integer constant \<open>k\<close>.\<close>

fun float_gt :: "pyfloat \<Rightarrow> int \<Rightarrow> bool" where
  "float_gt (Finite x) k = (of_int k < x)"
| "float_gt NaN k = False"
| "float_gt PosInf k = True"
| "float_gt NegInf k = False"

text \<open>
  One row of the table: the dictionary built in \<^verbatim>\<open>build_intel_quality_dataset.main\<close>
  and the \<^verbatim>\<open>pandas.Series\<close> handed to \<^verbatim>\<open>classify_row\<close>.
\<close>

record row =
  Image_ID :: int
  Filepath :: string
  Label :: string
  Brightness :: pyfloat
  Contrast :: pyfloat

text \<open>\<^verbatim>\<open>sep.join(xs)\<close> of Python.\<close>

fun join :: "string \<Rightarrow> string list \<Rightarrow> string" where
  "join sep [] = []"
| "join sep [x] = x"
| "join sep (x # y # ys) = x @ sep @ join sep (y # ys)"


section \<open>analyze_intel_quality.py: the classifier\<close>

definition BRIGHTNESS_MIN :: int where
  "BRIGHTNESS_MIN = 60"

definition BRIGHTNESS_MAX :: int where
  "BRIGHTNESS_MAX = 200"

definition CONTRAST_MIN :: int where
  "CONTRAST_MIN = 20"

text \<open>
  The list \<^verbatim>\<open>reasons\<close> of \<^verbatim>\<open>classify_row\<close> after its three \<^verbatim>\<open>if\<close> statements
  (lines 84 to 94); each \<^verbatim>\<open>append\<close> is an update of the list passed along.
\<close>

definition fail_reasons :: "row \<Rightarrow> string list" where
  "fail_reasons r =
     (let reasons = [];
          reasons = (if float_lt (Brightness r) BRIGHTNESS_MIN
                     then reasons @ [''too_dark''] else reasons);
          reasons = (if float_gt (Brightness r) BRIGHTNESS_MAX
                     then reasons @ [''too_bright''] else reasons);
          reasons = (if float_lt (Contrast r) CONTRAST_MIN
                     then reasons @ [''low_contrast''] else reasons)
      in reasons)"

text \<open>\<^verbatim>\<open>classify_row\<close>: the pair \<^verbatim>\<open>(status, reason_str)\<close> (lines 96 to 105).\<close>

definition classify_row :: "row \<Rightarrow> string \<times> string" where
  "classify_row r =
     (let reasons = fail_reasons r
      in if reasons \<noteq> [] then (''FAIL'', join '';'' reasons) else (''PASS'', ''''))"


section \<open>analyze_intel_quality.py: the summary\<close>

subsection \<open>Float arithmetic and formatting\<close>

text \<open>
  The failure rate is a float64. A float64 value is kept as the rational number it stands
  for, and every operation rounds its exact result to the nearest number with 53
  significant bits, a tie going to the even significand. Overflow and subnormal numbers
  are left out: the quotient of two row counts and its product with 100 are far from both.

  \<open>floor_log2 x\<close> is the exponent \<open>e\<close> with \<open>2\<^sup>e \<le> x < 2\<^sup>e\<^sup>+\<^sup>1\<close>, for \<open>x > 0\<close>.
\<close>

definition floor_log2 :: "rat \<Rightarrow> int" where
  "floor_log2 x =
     (let (p, q) = quotient_of x; k = bitlen p - bitlen q
      in if 2 powi k \<le> x then k else k - 1)"

text \<open>Rounding to the nearest integer, a tie going to the even neighbour.\<close>

definition round_half_even :: "rat \<Rightarrow> int" where
  "round_half_even x =
     (let f = \<lfloor>x\<rfloor>; d = x - of_int f
      in if d < 1 / 2 then f else if 1 / 2 < d then f + 1 else if even f then f else f + 1)"

definition float64_round :: "rat \<Rightarrow> rat" where
  "float64_round x =
     (if x = 0 then 0
      else
        let e = floor_log2 \<bar>x\<bar>;
            m = round_half_even (\<bar>x\<bar> * 2 powi (52 - e))
        in sgn x * of_int m * 2 powi (e - 52))"

text \<open>\<^verbatim>\<open>a / b\<close> and \<^verbatim>\<open>a * b\<close> on float64 values.\<close>

definition float_div :: "rat \<Rightarrow> rat \<Rightarrow> rat" where
  "float_div a b = float64_round (a / b)"

definition float_mul :: "rat \<Rightarrow> rat \<Rightarrow> rat" where
  "float_mul a b = float64_round (a * b)"

text \<open>Decimal digits of a natural number, as \<^verbatim>\<open>str\<close> prints them.\<close>

function str_nat :: "nat \<Rightarrow> string" where
  "str_nat n =
     (if n < 10 then [char_of (48 + n)]
      else str_nat (n div 10) @ [char_of (48 + n mod 10)])"
  by pat_completeness auto
termination
  by (relation "measure id") auto

declare str_nat.simps [simp del]

text \<open>
  The format \<^verbatim>\<open>{x:.2f}\<close> of a float64 value: the decimal number with two decimals that
  is nearest to the value the float stands for, a tie going to the even digit.
\<close>

definition fmt_2f :: "rat \<Rightarrow> string" where
  "fmt_2f x =
     (let h = round_half_even (\<bar>x\<bar> * 100);
          body = str_nat (nat (h div 100)) @ ''.'' @ str_nat (nat (h mod 100 div 10))
                   @ str_nat (nat (h mod 10))
      in if x < 0 then ''-'' @ body else body)"

subsection \<open>The report\<close>

text \<open>
  The overall summary (lines 121 to 126), from the \<^verbatim>\<open>Status\<close> column. The counts are
  integers; \<^verbatim>\<open>failed / total * 100\<close> converts them to float64, which is exact below
  \<open>2\<^sup>5\<^sup>3\<close>, divides, and multiplies the rounded quotient by 100.
\<close>

record summary =
  total :: int
  failed :: int
  passed :: int
  failure_rate :: rat

definition summarise :: "string list \<Rightarrow> summary" where
  "summarise Status =
     (let total = int (length Status);
          failed = int (length (filter (\<lambda>s. s = ''FAIL'') Status));
          passed = total - failed;
          failure_rate = (if total > 0
                          then float_mul (float_div (of_int failed) (of_int total)) 100
                          else 0)
      in \<lparr>total = total, failed = failed, passed = passed, failure_rate = failure_rate\<rparr>)"

text \<open>The line \<^verbatim>\<open>Failure rate: ...%\<close> of the report (line 131).\<close>

definition failure_rate_line :: "summary \<Rightarrow> string" where
  "failure_rate_line s = ''Failure rate: '' @ fmt_2f (failure_rate s) @ ''%''"

text \<open>
  The rate as the specification words it: \<open>failed / total * 100\<close> as a number, rendered
  to two decimal places. It is not in the source and serves for comparison only.
\<close>

definition claimed_rate_text :: "int \<Rightarrow> int \<Rightarrow> string" where
  "claimed_rate_text n_failed n_total = fmt_2f (of_int n_failed / of_int n_total * 100)"

text \<open>
  The failure reasons breakdown (lines 139 to 149) from the two columns added by
  \<^verbatim>\<open>classify_row\<close>: the number of failed rows with each reason string when some row
  failed, and no breakdown at all (\<open>None\<close>) when none did.
\<close>

definition reason_breakdown :: "(string \<times> string) list \<Rightarrow> (string \<Rightarrow> nat) option" where
  "reason_breakdown statuses =
     (let fail_only = filter (\<lambda>(status, reason_str). status = ''FAIL'') statuses
      in if fail_only \<noteq> [] then Some (count_list (map snd fail_only)) else None)"


section \<open>build_intel_quality_dataset.py\<close>

subsection \<open>The directory tree and the image library\<close>

text \<open>
  What the builder finds at \<^verbatim>\<open>TRAIN_DIR\<close>: nothing, a file, or a directory with its
  entries in the order \<^verbatim>\<open>os.listdir\<close> returns them.
\<close>

datatype node = File | Dir "(string \<times> node) list"

definition isdir :: "node option \<Rightarrow> bool" where
  "isdir n = (case n of Some (Dir entries) \<Rightarrow> True | _ \<Rightarrow> False)"

definition listdir :: "node option \<Rightarrow> string list" where
  "listdir n = (case n of Some (Dir entries) \<Rightarrow> map fst entries | _ \<Rightarrow> [])"

text \<open>The entry of a directory with a given name.\<close>

definition child :: "node option \<Rightarrow> string \<Rightarrow> node option" where
  "child n name = (case n of Some (Dir entries) \<Rightarrow> map_of entries name | _ \<Rightarrow> None)"

text \<open>\<^verbatim>\<open>os.path.join(a, b)\<close> on POSIX.\<close>

definition os_path_join :: "string \<Rightarrow> string \<Rightarrow> string" where
  "os_path_join a b =
     (case b of
        c # cs \<Rightarrow> if c = CHR ''/'' then b
                  else if a = [] \<or> last a = CHR ''/'' then a @ b else a @ ''/'' @ b
      | [] \<Rightarrow> if a = [] \<or> last a = CHR ''/'' then a else a @ ''/'')"

text \<open>\<^verbatim>\<open>str.lower\<close> on ASCII letters, and \<^verbatim>\<open>str.endswith\<close>.\<close>

definition lower_char :: "char \<Rightarrow> char" where
  "lower_char c =
     (if CHR ''A'' \<le> c \<and> c \<le> CHR ''Z'' then char_of (of_char c + (32::nat)) else c)"

definition lower :: "string \<Rightarrow> string" where
  "lower s = map lower_char s"

definition endswith :: "string \<Rightarrow> string \<Rightarrow> bool" where
  "endswith s suffix =
     (length suffix \<le> length s \<and> drop (length s - length suffix) s = suffix)"

text \<open>The test of line 129 on a file name.\<close>

definition is_image_name :: "string \<Rightarrow> bool" where
  "is_image_name filename =
     (endswith (lower filename) ''.jpg'' \<or> endswith (lower filename) ''.jpeg''
      \<or> endswith (lower filename) ''.png'')"

datatype exn = Exception string

text \<open>
  The body of the \<^verbatim>\<open>try\<close> block of \<^verbatim>\<open>compute_brightness_and_contrast\<close> consists of
  calls into Pillow and NumPy. It is a parameter \<open>stats\<close> of the model: for a path it
  gives the exception raised, or the mean and the standard deviation.
\<close>

type_synonym image_stats = "string \<Rightarrow> exn + pyfloat \<times> pyfloat"

text \<open>\<^verbatim>\<open>compute_brightness_and_contrast\<close>: the handler turns any exception into
  \<^verbatim>\<open>(None, None)\<close>.\<close>

definition compute_brightness_and_contrast ::
    "image_stats \<Rightarrow> string \<Rightarrow> pyfloat option \<times> pyfloat option" where
  "compute_brightness_and_contrast stats image_path =
     (case stats image_path of
        Inr (brightness, contrast) \<Rightarrow> (Some brightness, Some contrast)
      | Inl e \<Rightarrow> (None, None))"

subsection \<open>The table\<close>

text \<open>
  A \<^verbatim>\<open>pandas.DataFrame\<close>: its column names and its rows. \<^verbatim>\<open>pd.DataFrame(rows)\<close> takes
  the column names from the keys of the row dictionaries, so a list without rows gives a
  frame without columns. A cell that is \<^verbatim>\<open>None\<close> in a numeric column is stored as NaN.
\<close>

record dataframe =
  columns :: "string list"
  data :: "row list"

definition DataFrame :: "row list \<Rightarrow> dataframe" where
  "DataFrame rows =
     \<lparr>columns = (if rows = [] then []
                 else [''Image_ID'', ''Filepath'', ''Label'', ''Brightness'', ''Contrast'']),
      data = rows\<rparr>"

subsection \<open>main\<close>

definition TRAIN_DIR :: string where
  "TRAIN_DIR = os_path_join ''seg_train'' ''seg_train''"

definition IMAGES_PER_CLASS :: int where
  "IMAGES_PER_CLASS = 100"

text \<open>
  The loop over the files of one class directory (lines 123 to 156), on the state
  \<^verbatim>\<open>(rows, image_id, count)\<close>. The limit is the argument \<open>images_per_class\<close>.
\<close>

fun class_loop ::
    "image_stats \<Rightarrow> int \<Rightarrow> string \<Rightarrow> string \<Rightarrow> string list
      \<Rightarrow> row list \<times> int \<times> int \<Rightarrow> row list \<times> int \<times> int" where
  "class_loop stats images_per_class class_dir label [] (rows, image_id, count) =
     (rows, image_id, count)"
| "class_loop stats images_per_class class_dir label (filename # rest) (rows, image_id, count) =
     (if count \<ge> images_per_class then (rows, image_id, count)
      else if \<not> is_image_name filename
      then class_loop stats images_per_class class_dir label rest (rows, image_id, count)
      else
        let image_path = os_path_join class_dir filename;
            (brightness, contrast) = compute_brightness_and_contrast stats image_path
        in case brightness of
             None \<Rightarrow> class_loop stats images_per_class class_dir label rest (rows, image_id, count)
           | Some b \<Rightarrow>
               let row = \<lparr>Image_ID = image_id, Filepath = image_path, Label = label,
                          Brightness = b,
                          Contrast = (case contrast of Some c \<Rightarrow> c | None \<Rightarrow> NaN)\<rparr>
               in class_loop stats images_per_class class_dir label rest
                    (rows @ [row], image_id + 1, count + 1))"

text \<open>
  The loop over the sorted entries of \<^verbatim>\<open>TRAIN_DIR\<close> (lines 109 to 156), on the state
  \<^verbatim>\<open>(rows, image_id)\<close>; \<^verbatim>\<open>count\<close> starts at 0 for every class directory.
\<close>

fun label_loop ::
    "image_stats \<Rightarrow> int \<Rightarrow> node option \<Rightarrow> string list \<Rightarrow> row list \<times> int \<Rightarrow> row list \<times> int" where
  "label_loop stats images_per_class train_dir [] (rows, image_id) = (rows, image_id)"
| "label_loop stats images_per_class train_dir (label # rest) (rows, image_id) =
     (let class_dir = os_path_join TRAIN_DIR label
      in if \<not> isdir (child train_dir label)
         then label_loop stats images_per_class train_dir rest (rows, image_id)
         else
           let count = 0;
               (rows, image_id, count) =
                 class_loop stats images_per_class class_dir label
                   (listdir (child train_dir label)) (rows, image_id, count)
           in label_loop stats images_per_class train_dir rest (rows, image_id))"

text \<open>
  \<^verbatim>\<open>main\<close> with the limit as an argument. The result is what the run leaves on disk:
  \<open>None\<close> when it returns at line 99 without writing, else the name and the content of
  the file written at line 165. Printing is left out.
\<close>

definition build :: "int \<Rightarrow> image_stats \<Rightarrow> node option \<Rightarrow> (string \<times> dataframe) option" where
  "build images_per_class stats train_dir =
     (if \<not> isdir train_dir then None
      else
        let rows = [];
            image_id = 0;
            (rows, image_id) =
              label_loop stats images_per_class train_dir (sort (listdir train_dir))
                (rows, image_id);
            df = DataFrame rows;
            output_csv = ''intel_camera_quality.csv''
        in Some (output_csv, df))"

definition main :: "image_stats \<Rightarrow> node option \<Rightarrow> (string \<times> dataframe) option" where
  "main = build IMAGES_PER_CLASS"

subsection \<open>analyze_intel_quality.py: main up to the summary\<close>

text \<open>
  The analyzer's \<^verbatim>\<open>main\<close> on the table it loads, up to the summary of lines 121 to 126:
  the exception that ends the run, or the summary. \<^verbatim>\<open>pd.read_csv\<close> (line 35) raises on
  a file whose header names no column. On a table without rows \<^verbatim>\<open>df.apply\<close> (line 109)
  returns a copy of the table, which has no column \<^verbatim>\<open>0\<close>, so line 112 raises. Otherwise
  \<^verbatim>\<open>Status\<close> is the first component of \<^verbatim>\<open>classify_row\<close> on every row.
\<close>

definition analyze :: "dataframe \<Rightarrow> exn + summary" where
  "analyze df =
     (if columns df = [] then Inl (Exception ''EmptyDataError'')
      else if data df = [] then Inl (Exception ''KeyError'')
      else
        let statuses = map classify_row (data df);
            Status = map fst statuses
        in Inr (summarise Status))"

subsection \<open>What the loops compute\<close>

text \<open>
  The functions of this subsection are not in the source: they describe the result of
  the two loops, and the loops are proved equal to them below.

  A file of a class directory is successfully processed when its name passes the test of
  line 129 and the extraction raises no exception.
\<close>

definition succeeds :: "image_stats \<Rightarrow> string \<Rightarrow> string \<Rightarrow> bool" where
  "succeeds stats class_dir filename =
     (is_image_name filename \<and> \<not> isl (stats (os_path_join class_dir filename)))"

text \<open>The files of a listing that get a row: the first \<open>images_per_class\<close> successful ones.\<close>

definition admitted :: "int \<Rightarrow> image_stats \<Rightarrow> string \<Rightarrow> string list \<Rightarrow> string list" where
  "admitted images_per_class stats class_dir files =
     take (nat images_per_class) (filter (succeeds stats class_dir) files)"

text \<open>The rows for a list of files of one class directory, numbered from \<open>i\<close>.\<close>

fun class_rows :: "image_stats \<Rightarrow> string \<Rightarrow> string \<Rightarrow> int \<Rightarrow> string list \<Rightarrow> row list" where
  "class_rows stats class_dir label i [] = []"
| "class_rows stats class_dir label i (f # fs) =
     (case stats (os_path_join class_dir f) of
        Inr (b, c) \<Rightarrow>
          \<lparr>Image_ID = i, Filepath = os_path_join class_dir f, Label = label,
           Brightness = b, Contrast = c\<rparr> # class_rows stats class_dir label (i + 1) fs
      | Inl e \<Rightarrow> class_rows stats class_dir label i fs)"

text \<open>The rows for a list of labels, numbered from \<open>i\<close>.\<close>

fun all_rows :: "image_stats \<Rightarrow> int \<Rightarrow> node option \<Rightarrow> int \<Rightarrow> string list \<Rightarrow> row list" where
  "all_rows stats cap t i [] = []"
| "all_rows stats cap t i (l # ls) =
     (let class_dir = os_path_join TRAIN_DIR l;
          new = class_rows stats class_dir l i
                  (admitted cap stats class_dir (listdir (child t l)))
      in new @ all_rows stats cap t (i + int (length new)) ls)"

subsection \<open>An example run\<close>

text \<open>
  A training directory with two class directories and a stray file. In \<^verbatim>\<open>forest\<close>,
  \<^verbatim>\<open>bad.png\<close> cannot be decoded and \<^verbatim>\<open>readme.md\<close> is no image. With a limit of two
  images per class the builder writes \<open>example_table\<close>.
\<close>

definition example_dir :: "node option" where
  "example_dir =
     Some (Dir [(''sea'', Dir [(''s1.jpg'', File), (''s2.JPG'', File)]),
                (''notes.txt'', File),
                (''forest'', Dir [(''f1.jpg'', File), (''bad.png'', File), (''readme.md'', File),
                                 (''f2.jpeg'', File), (''f3.PNG'', File)])])"

definition example_stats :: image_stats where
  "example_stats =
     case_option (Inl (Exception ''cannot identify image file'')) Inr \<circ>
       map_of [(''seg_train/seg_train/sea/s1.jpg'', (Finite 120, Finite 40)),
               (''seg_train/seg_train/sea/s2.JPG'', (Finite 30, Finite 10)),
               (''seg_train/seg_train/forest/f1.jpg'', (Finite 70, Finite 25)),
               (''seg_train/seg_train/forest/f2.jpeg'', (Finite 210, Finite 50)),
               (''seg_train/seg_train/forest/f3.PNG'', (Finite 60, Finite 20))]"

definition example_table :: dataframe where
  "example_table =
     \<lparr>columns = [''Image_ID'', ''Filepath'', ''Label'', ''Brightness'', ''Contrast''],
      data =
        [\<lparr>Image_ID = 0, Filepath = ''seg_train/seg_train/forest/f1.jpg'',
            Label = ''forest'', Brightness = Finite 70, Contrast = Finite 25\<rparr>,
         \<lparr>Image_ID = 1, Filepath = ''seg_train/seg_train/forest/f2.jpeg'',
            Label = ''forest'', Brightness = Finite 210, Contrast = Finite 50\<rparr>,
         \<lparr>Image_ID = 2, Filepath = ''seg_train/seg_train/sea/s1.jpg'',
            Label = ''sea'', Brightness = Finite 120, Contrast = Finite 40\<rparr>,
         \<lparr>Image_ID = 3, Filepath = ''seg_train/seg_train/sea/s2.JPG'',
            Label = ''sea'', Brightness = Finite 30, Contrast = Finite 10\<rparr>]\<rparr>"


text \<open>
  Tables for the analyzer: \<open>example_frame k n\<close> has \<open>n\<close> rows, of which the first
  \<open>k\<close> are too dark and the others pass.
\<close>

definition example_frame :: "nat \<Rightarrow> nat \<Rightarrow> dataframe" where
  "example_frame k n =
     \<lparr>columns = [''Image_ID'', ''Filepath'', ''Label'', ''Brightness'', ''Contrast''],
      data = map (\<lambda>i. \<lparr>Image_ID = int i,
                         Filepath = ''seg_train/seg_train/sea/'' @ str_nat i @ ''.jpg'',
                         Label = ''sea'',
                         Brightness = (if i < k then Finite 30 else Finite 120),
                         Contrast = Finite 40\<rparr>) [0..<n]\<rparr>"

section \<open>Properties of the classifier\<close>

lemma fail_reasons_cases:
  "fail_reasons r =
     (if float_lt (Brightness r) 60 then [''too_dark''] else []) @
     (if float_gt (Brightness r) 200 then [''too_bright''] else []) @
     (if float_lt (Contrast r) 20 then [''low_contrast''] else [])"
  by (simp add: fail_reasons_def BRIGHTNESS_MIN_def BRIGHTNESS_MAX_def CONTRAST_MIN_def)

lemma not_dark_and_bright: "\<not> (float_lt x 60 \<and> float_gt x 200)"
  by (cases x) auto

text \<open>
  C1. The limits are 60, 200 and 20 and failure is a strict inequality:
  \<^verbatim>\<open>too_dark\<close> is in the reason list exactly when brightness < 60, \<^verbatim>\<open>too_bright\<close>
  exactly when brightness > 200, \<^verbatim>\<open>low_contrast\<close> exactly when contrast < 20. A row
  whose brightness is 60 or 200 has neither brightness reason, a row whose contrast is 20
  has no \<^verbatim>\<open>low_contrast\<close>, and the values 59.999, 200.001 and 19.999 do fail.
\<close>

theorem C1_strict_thresholds:
  "BRIGHTNESS_MIN = 60 \<and> BRIGHTNESS_MAX = 200 \<and> CONTRAST_MIN = 20
   \<and> (''too_dark'' \<in> set (fail_reasons r) \<longleftrightarrow> float_lt (Brightness r) 60)
   \<and> (''too_bright'' \<in> set (fail_reasons r) \<longleftrightarrow> float_gt (Brightness r) 200)
   \<and> (''low_contrast'' \<in> set (fail_reasons r) \<longleftrightarrow> float_lt (Contrast r) 20)
   \<and> ''too_dark'' \<notin> set (fail_reasons (r\<lparr>Brightness := Finite 60\<rparr>))
   \<and> ''too_bright'' \<notin> set (fail_reasons (r\<lparr>Brightness := Finite 60\<rparr>))
   \<and> ''too_dark'' \<notin> set (fail_reasons (r\<lparr>Brightness := Finite 200\<rparr>))
   \<and> ''too_bright'' \<notin> set (fail_reasons (r\<lparr>Brightness := Finite 200\<rparr>))
   \<and> ''low_contrast'' \<notin> set (fail_reasons (r\<lparr>Contrast := Finite 20\<rparr>))
   \<and> ''too_dark'' \<in> set (fail_reasons (r\<lparr>Brightness := Finite (59999 / 1000)\<rparr>))
   \<and> ''too_bright'' \<in> set (fail_reasons (r\<lparr>Brightness := Finite (200001 / 1000)\<rparr>))
   \<and> ''low_contrast'' \<in> set (fail_reasons (r\<lparr>Contrast := Finite (19999 / 1000)\<rparr>))"
  by (simp add: fail_reasons_cases BRIGHTNESS_MIN_def BRIGHTNESS_MAX_def CONTRAST_MIN_def)

lemma join_nonempty: "xs \<noteq> [] \<Longrightarrow> \<forall>x \<in> set xs. x \<noteq> [] \<Longrightarrow> join sep xs \<noteq> []"
  by (induction sep xs rule: join.induct) auto

lemma fail_reasons_tags:
  "set (fail_reasons r) \<subseteq> {''too_dark'', ''too_bright'', ''low_contrast''}"
  by (auto simp: fail_reasons_cases)

text \<open>
  C2. For every row the status is \<^verbatim>\<open>FAIL\<close> exactly when the reason list is not empty
  (and \<^verbatim>\<open>PASS\<close> otherwise), and the serialised reason string is empty exactly when the
  status is \<^verbatim>\<open>PASS\<close>.
\<close>

theorem C2_status_iff_reasons:
  "(fst (classify_row r) = ''FAIL'' \<longleftrightarrow> fail_reasons r \<noteq> [])
   \<and> (fst (classify_row r) = ''PASS'' \<longleftrightarrow> fail_reasons r = [])
   \<and> (snd (classify_row r) = '''' \<longleftrightarrow> fst (classify_row r) = ''PASS'')"
proof -
  have tags: "\<forall>x \<in> set (fail_reasons r). x \<noteq> []"
    using fail_reasons_tags [of r] by auto
  have "fail_reasons r \<noteq> [] \<Longrightarrow> join '';'' (fail_reasons r) \<noteq> []"
    using tags by (simp add: join_nonempty)
  then show ?thesis
    by (auto simp: classify_row_def Let_def)
qed

text \<open>
  C3. The reason list keeps the order of evaluation: it is the fixed list
  \<^verbatim>\<open>too_dark\<close>, \<^verbatim>\<open>too_bright\<close>, \<^verbatim>\<open>low_contrast\<close> restricted to the reasons that apply,
  with no reason twice, and the second component of \<^verbatim>\<open>classify_row\<close> is that list
  joined with semicolons. A row with brightness 30 and contrast 10 has the reasons
  \<^verbatim>\<open>too_dark\<close>, \<^verbatim>\<open>low_contrast\<close> in that order, status \<^verbatim>\<open>FAIL\<close> and reason string
  \<^verbatim>\<open>too_dark;low_contrast\<close>.
\<close>

theorem C3_reason_order:
  "fail_reasons r =
     filter (\<lambda>t. t \<in> set (fail_reasons r)) [''too_dark'', ''too_bright'', ''low_contrast'']
   \<and> distinct (fail_reasons r)
   \<and> snd (classify_row r) = join '';'' (fail_reasons r)
   \<and> fail_reasons (r\<lparr>Brightness := Finite 30, Contrast := Finite 10\<rparr>)
       = [''too_dark'', ''low_contrast'']
   \<and> classify_row (r\<lparr>Brightness := Finite 30, Contrast := Finite 10\<rparr>)
       = (''FAIL'', ''too_dark;low_contrast'')"
  by (simp add: classify_row_def Let_def fail_reasons_cases)

text \<open>
  C10. No reason list holds both \<^verbatim>\<open>too_dark\<close> and \<^verbatim>\<open>too_bright\<close>, so a reason list has
  at most two entries and is empty or one of the five combinations \<^verbatim>\<open>too_dark\<close>,
  \<^verbatim>\<open>too_bright\<close>, \<^verbatim>\<open>low_contrast\<close>, \<^verbatim>\<open>too_dark;low_contrast\<close>,
  \<^verbatim>\<open>too_bright;low_contrast\<close>; the serialised string of a failed row is one of these five.
\<close>

theorem C10_reason_combinations:
  "\<not> (''too_dark'' \<in> set (fail_reasons r) \<and> ''too_bright'' \<in> set (fail_reasons r))
   \<and> length (fail_reasons r) \<le> 2
   \<and> fail_reasons r \<in> {[], [''too_dark''], [''too_bright''], [''low_contrast''],
         [''too_dark'', ''low_contrast''], [''too_bright'', ''low_contrast'']}
   \<and> classify_row r \<in> {(''PASS'', ''''), (''FAIL'', ''too_dark''), (''FAIL'', ''too_bright''),
         (''FAIL'', ''low_contrast''), (''FAIL'', ''too_dark;low_contrast''),
         (''FAIL'', ''too_bright;low_contrast'')}"
  using not_dark_and_bright [of "Brightness r"]
  by (auto simp: classify_row_def Let_def fail_reasons_cases)

text \<open>Each of the five combinations does occur.\<close>

lemma reason_combinations_occur:
  "fail_reasons (r\<lparr>Brightness := Finite 30, Contrast := Finite 50\<rparr>) = [''too_dark'']"
  "fail_reasons (r\<lparr>Brightness := Finite 230, Contrast := Finite 50\<rparr>) = [''too_bright'']"
  "fail_reasons (r\<lparr>Brightness := Finite 100, Contrast := Finite 10\<rparr>) = [''low_contrast'']"
  "fail_reasons (r\<lparr>Brightness := Finite 30, Contrast := Finite 10\<rparr>)
     = [''too_dark'', ''low_contrast'']"
  "fail_reasons (r\<lparr>Brightness := Finite 230, Contrast := Finite 10\<rparr>)
     = [''too_bright'', ''low_contrast'']"
  by (simp_all add: fail_reasons_cases)


section \<open>Properties of the builder\<close>

lemma class_loop_eq:
  "class_loop stats cap class_dir label files (rows, i, c) =
     (let new = class_rows stats class_dir label i
                  (take (nat (cap - c)) (filter (succeeds stats class_dir) files))
      in (rows @ new, i + int (length new), c + int (length new)))"
proof (induction files arbitrary: rows i c)
  case Nil
  then show ?case by simp
next
  case (Cons f fs)
  show ?case
  proof (cases "c \<ge> cap")
    case True
    then show ?thesis by simp
  next
    case False
    then have n: "nat (cap - c) = Suc (nat (cap - (c + 1)))"
      by arith
    show ?thesis
    proof (cases "succeeds stats class_dir f")
      case True
      then obtain b c' where s: "stats (os_path_join class_dir f) = Inr (b, c')"
        by (cases "stats (os_path_join class_dir f)") (auto simp: succeeds_def)
      with True False n show ?thesis
        by (simp add: Cons.IH succeeds_def compute_brightness_and_contrast_def Let_def)
    next
      case False
      with \<open>\<not> c \<ge> cap\<close> show ?thesis
        by (auto simp: Cons.IH succeeds_def compute_brightness_and_contrast_def Let_def
            split: sum.splits)
    qed
  qed
qed

lemma listdir_not_dir: "\<not> isdir n \<Longrightarrow> listdir n = []"
  by (auto simp: isdir_def listdir_def split: option.splits node.splits)

lemma label_loop_eq:
  "label_loop stats cap t ls (rows, i) =
     (rows @ all_rows stats cap t i ls, i + int (length (all_rows stats cap t i ls)))"
proof (induction ls arbitrary: rows i)
  case Nil
  then show ?case by simp
next
  case (Cons l ls)
  show ?case
  proof (cases "isdir (child t l)")
    case True
    then show ?thesis
      by (simp add: Cons.IH class_loop_eq admitted_def Let_def)
  next
    case False
    then show ?thesis
      by (simp add: Cons.IH listdir_not_dir admitted_def Let_def)
  qed
qed

lemma class_rows_paths:
  "\<forall>f \<in> set fs. succeeds stats class_dir f \<Longrightarrow>
   map Filepath (class_rows stats class_dir label i fs) = map (os_path_join class_dir) fs"
  by (induction fs arbitrary: i) (auto simp: succeeds_def split: sum.splits)

lemma class_rows_length:
  "\<forall>f \<in> set fs. succeeds stats class_dir f \<Longrightarrow>
   length (class_rows stats class_dir label i fs) = length fs"
  by (induction fs arbitrary: i) (auto simp: succeeds_def split: sum.splits)

lemma class_rows_ids:
  "map Image_ID (class_rows stats class_dir label i fs)
     = map (\<lambda>k. i + int k) [0..<length (class_rows stats class_dir label i fs)]"
proof (induction fs arbitrary: i)
  case Nil
  then show ?case by simp
next
  case (Cons f fs)
  show ?case
  proof (cases "stats (os_path_join class_dir f)")
    case (Inl e)
    then show ?thesis using Cons.IH by simp
  next
    case (Inr p)
    obtain b c where p: "p = (b, c)" by (cases p)
    have "map Image_ID (class_rows stats class_dir label (i + 1) fs)
            = map (\<lambda>k. i + int (Suc k)) [0..<length (class_rows stats class_dir label (i + 1) fs)]"
      using Cons.IH [of "i + 1"] by (simp add: add.assoc)
    then show ?thesis using Inr p
      by (simp add: upt_conv_Cons map_Suc_upt [symmetric] del: upt_Suc)
  qed
qed

lemma class_rows_labels:
  "r \<in> set (class_rows stats class_dir label i fs) \<Longrightarrow>
   Label r = label \<and> stats (Filepath r) = Inr (Brightness r, Contrast r)"
  by (induction fs arbitrary: i) (auto split: sum.splits)

lemma admitted_succeeds: "\<forall>f \<in> set (admitted cap stats class_dir fs). succeeds stats class_dir f"
  by (auto simp: admitted_def dest: in_set_takeD)

lemma map_upt_add:
  "map f [0..<a + b] = map f [0..<a] @ map (\<lambda>k. f (a + k)) [0..<b]"
proof -
  have "[0..<a + b] = [0..<a] @ map (\<lambda>k. a + k) [0..<b]"
    by (induction b) simp_all
  then show ?thesis by (simp add: comp_def)
qed

lemma all_rows_ids:
  "map Image_ID (all_rows stats cap t i ls)
     = map (\<lambda>k. i + int k) [0..<length (all_rows stats cap t i ls)]"
proof (induction ls arbitrary: i)
  case Nil
  then show ?case by simp
next
  case (Cons l ls)
  show ?case
    by (simp add: Let_def map_upt_add Cons.IH add.assoc class_rows_ids [symmetric])
qed

lemma all_rows_paths:
  "map Filepath (all_rows stats cap t i ls)
     = concat (map (\<lambda>l. map (os_path_join (os_path_join TRAIN_DIR l))
                             (admitted cap stats (os_path_join TRAIN_DIR l) (listdir (child t l)))) ls)"
  by (induction ls arbitrary: i) (simp_all add: Let_def class_rows_paths admitted_succeeds)

lemma all_rows_labels:
  "map Label (all_rows stats cap t i ls)
     = concat (map (\<lambda>l. replicate
                  (length (admitted cap stats (os_path_join TRAIN_DIR l) (listdir (child t l)))) l) ls)"
proof (induction ls arbitrary: i)
  case Nil
  then show ?case by simp
next
  case (Cons l ls)
  have "map Label (class_rows stats class_dir l i fs)
          = replicate (length (class_rows stats class_dir l i fs)) l" for class_dir fs
    using map_replicate_const [of l "class_rows stats class_dir l i fs"]
          map_cong [of "class_rows stats class_dir l i fs" "class_rows stats class_dir l i fs" Label "\<lambda>r. l"]
    by (auto dest: class_rows_labels)
  then show ?case
    by (simp add: Let_def Cons.IH class_rows_length admitted_succeeds)
qed

lemma sorted_concat_replicate:
  "sorted ls \<Longrightarrow> sorted (concat (map (\<lambda>l. replicate (n l) l) ls))"
  by (induction ls) (auto simp: sorted_append)

lemma all_rows_stats:
  "r \<in> set (all_rows stats cap t i ls) \<Longrightarrow>
   stats (Filepath r) = Inr (Brightness r, Contrast r)
   \<and> Label r \<in> set ls \<and> isdir (child t (Label r))"
proof (induction ls arbitrary: i)
  case Nil
  then show ?case by simp
next
  case (Cons l ls)
  from Cons.prems consider
      (blk) "r \<in> set (class_rows stats (os_path_join TRAIN_DIR l) l i
                  (admitted cap stats (os_path_join TRAIN_DIR l) (listdir (child t l))))"
    | (rest) j where "r \<in> set (all_rows stats cap t j ls)"
    by (auto simp: Let_def)
  then show ?case
  proof cases
    case blk
    then have "listdir (child t l) \<noteq> []"
      by (auto simp: admitted_def)
    then have "isdir (child t l)"
      using listdir_not_dir by blast
    with blk show ?thesis
      by (auto dest: class_rows_labels)
  next
    case rest
    then show ?thesis using Cons.IH by auto
  qed
qed

lemma all_rows_other_label:
  "l \<notin> set ls \<Longrightarrow> filter (\<lambda>r. Label r = l) (all_rows stats cap t i ls) = []"
  by (auto simp: filter_empty_conv dest: all_rows_stats)

lemma all_rows_of_label:
  "distinct ls \<Longrightarrow> l \<in> set ls \<Longrightarrow>
   map Filepath (filter (\<lambda>r. Label r = l) (all_rows stats cap t i ls))
     = map (os_path_join (os_path_join TRAIN_DIR l))
         (admitted cap stats (os_path_join TRAIN_DIR l) (listdir (child t l)))"
proof (induction ls arbitrary: i)
  case Nil
  then show ?case by simp
next
  case (Cons l' ls)
  let ?blk = "class_rows stats (os_path_join TRAIN_DIR l') l' i
                (admitted cap stats (os_path_join TRAIN_DIR l') (listdir (child t l')))"
  have blk: "filter (\<lambda>r. Label r = l) ?blk = (if l' = l then ?blk else [])"
    by (auto simp: filter_empty_conv filter_id_conv dest: class_rows_labels)
  show ?case
  proof (cases "l' = l")
    case True
    with Cons.prems have "l \<notin> set ls" by simp
    then show ?thesis using True blk
      by (simp add: Let_def all_rows_other_label class_rows_paths admitted_succeeds)
  next
    case False
    with Cons.prems have "distinct ls" "l \<in> set ls" by auto
    then show ?thesis using False blk
      by (simp add: Let_def Cons.IH)
  qed
qed

lemma build_eq:
  "isdir t \<Longrightarrow>
   build cap stats t =
     Some (''intel_camera_quality.csv'', DataFrame (all_rows stats cap t 0 (sort (listdir t))))"
  by (simp add: build_def label_loop_eq)

lemma build_SomeD:
  "build cap stats t = Some (name, df) \<Longrightarrow>
   isdir t \<and> name = ''intel_camera_quality.csv''
   \<and> data df = all_rows stats cap t 0 (sort (listdir t))
   \<and> columns df = (if data df = [] then []
        else [''Image_ID'', ''Filepath'', ''Label'', ''Brightness'', ''Contrast''])"
  by (cases "isdir t") (auto simp: build_eq DataFrame_def, simp add: build_def)

lemma child_not_listed: "l \<notin> set (listdir t) \<Longrightarrow> listdir (child t l) = []"
proof (cases t)
  case None
  then show ?thesis by (simp add: listdir_def child_def)
next
  case (Some n)
  assume l: "l \<notin> set (listdir t)"
  show ?thesis
  proof (cases n)
    case File
    with Some show ?thesis by (simp add: listdir_def child_def)
  next
    case (Dir es)
    with Some l have "map_of es l = None"
      by (simp add: listdir_def map_of_eq_None_iff)
    with Some Dir show ?thesis by (simp add: listdir_def child_def)
  qed
qed

text \<open>
  C4. With a positive limit and a listing without repeated names, the table holds at most
  \<open>cap\<close> rows of any label \<open>l\<close>, and they are the rows of the first \<open>cap\<close>
  successfully processed files of that class directory, in listing order. A file whose
  extraction fails is not among them and takes no place among the \<open>cap\<close>; a file
  after the first \<open>cap\<close> successful ones gets no row.
\<close>

theorem C4_cap_per_label:
  assumes "0 < cap" and "distinct (listdir t)" and "build cap stats t = Some (name, df)"
  shows "int (length (filter (\<lambda>r. Label r = l) (data df))) \<le> cap
    \<and> map Filepath (filter (\<lambda>r. Label r = l) (data df))
        = map (os_path_join (os_path_join TRAIN_DIR l))
            (take (nat cap) (filter (succeeds stats (os_path_join TRAIN_DIR l))
                               (listdir (child t l))))"
proof -
  let ?rows = "filter (\<lambda>r. Label r = l) (data df)"
  let ?files = "filter (succeeds stats (os_path_join TRAIN_DIR l)) (listdir (child t l))"
  have data: "data df = all_rows stats cap t 0 (sort (listdir t))"
    using assms(3) by (simp add: build_SomeD)
  have paths: "map Filepath ?rows = map (os_path_join (os_path_join TRAIN_DIR l)) (take (nat cap) ?files)"
  proof (cases "l \<in> set (listdir t)")
    case True
    then show ?thesis
      using assms(2) all_rows_of_label [of "sort (listdir t)" l stats cap t 0]
      by (simp add: data admitted_def)
  next
    case False
    then show ?thesis
      by (simp add: data all_rows_other_label child_not_listed)
  qed
  have "length ?rows = length (map Filepath ?rows)" by simp
  also have "\<dots> \<le> nat cap" unfolding paths by simp
  finally have "int (length ?rows) \<le> cap" using assms(1) by simp
  with paths show ?thesis by simp
qed

theorem C4_cap_per_label_witness:
  "(0::int) < 2 \<and> distinct (listdir example_dir)
   \<and> build 2 example_stats example_dir = Some (''intel_camera_quality.csv'', example_table)
   \<and> int (length (filter (\<lambda>r. Label r = ''forest'') (data example_table))) \<le> 2
   \<and> map Filepath (filter (\<lambda>r. Label r = ''forest'') (data example_table))
       = [''seg_train/seg_train/forest/f1.jpg'', ''seg_train/seg_train/forest/f2.jpeg'']"
proof -
  have h1: "(0::int) < 2" by simp
  have h2: "distinct (listdir example_dir)" by code_simp
  have h3: "build 2 example_stats example_dir = Some (''intel_camera_quality.csv'', example_table)"
    by code_simp
  have files: "map (os_path_join (os_path_join TRAIN_DIR ''forest''))
            (take (nat 2) (filter (succeeds example_stats (os_path_join TRAIN_DIR ''forest''))
                               (listdir (child example_dir ''forest''))))
       = [''seg_train/seg_train/forest/f1.jpg'', ''seg_train/seg_train/forest/f2.jpeg'']"
    by code_simp
  show ?thesis
    using C4_cap_per_label [OF h1 h2 h3, of "''forest''"] h1 h2 h3 files by simp
qed

lemma concat_map_filter_nonempty:
  "(\<And>x. \<not> P x \<Longrightarrow> f x = []) \<Longrightarrow> concat (map f (filter P xs)) = concat (map f xs)"
  by (induction xs) auto

lemma class_loop_skip:
  "\<not> succeeds stats class_dir f \<Longrightarrow>
   class_loop stats cap class_dir label (f # rest) (rows, i, c)
     = class_loop stats cap class_dir label rest (rows, i, c)"
  by (simp add: class_loop_eq Let_def)

text \<open>
  C5. In the table the builder writes, the row at position \<open>i\<close> has \<^verbatim>\<open>Image_ID\<close>
  \<open>i\<close>, and the counter \<^verbatim>\<open>image_id\<close> ends at the number of rows. The labels of the
  rows follow the sorted names of the entries of \<^verbatim>\<open>TRAIN_DIR\<close> that are directories,
  each repeated once per row of that class, so the label column is sorted and an entry
  that is no directory gives no row. A file whose extraction raises leaves the state
  \<^verbatim>\<open>(rows, image_id, count)\<close> of the loop as it was.
\<close>

theorem C5_dense_ids_sorted_labels:
  assumes "build cap stats t = Some (name, df)"
  shows "map Image_ID (data df) = map int [0..<length (data df)]
    \<and> snd (label_loop stats cap t (sort (listdir t)) ([], 0)) = int (length (data df))
    \<and> map Label (data df)
        = concat (map (\<lambda>l. replicate
              (length (take (nat cap) (filter (succeeds stats (os_path_join TRAIN_DIR l))
                                         (listdir (child t l))))) l)
            (filter (\<lambda>l. isdir (child t l)) (sort (listdir t))))
    \<and> sorted (map Label (data df))
    \<and> (\<forall>e. stats (os_path_join class_dir f) = Inl e \<longrightarrow>
         class_loop stats cap class_dir label (f # rest) (rows, i, c)
           = class_loop stats cap class_dir label rest (rows, i, c))"
proof -
  let ?ls = "sort (listdir t)"
  let ?n = "\<lambda>l. length (admitted cap stats (os_path_join TRAIN_DIR l) (listdir (child t l)))"
  have data: "data df = all_rows stats cap t 0 ?ls"
    using assms by (simp add: build_SomeD)
  have ids: "map Image_ID (data df) = map int [0..<length (data df)]"
    using all_rows_ids [of stats cap t 0 ?ls] by (simp add: data)
  have final: "snd (label_loop stats cap t ?ls ([], 0)) = int (length (data df))"
    by (simp add: label_loop_eq data)
  have labels: "map Label (data df) = concat (map (\<lambda>l. replicate (?n l) l) ?ls)"
    by (simp add: data all_rows_labels)
  have "concat (map (\<lambda>l. replicate (?n l) l) (filter (\<lambda>l. isdir (child t l)) ?ls))
          = concat (map (\<lambda>l. replicate (?n l) l) ?ls)"
    by (rule concat_map_filter_nonempty) (simp add: listdir_not_dir admitted_def)
  with labels have visited: "map Label (data df)
        = concat (map (\<lambda>l. replicate (?n l) l) (filter (\<lambda>l. isdir (child t l)) ?ls))"
    by simp
  have srt: "sorted (map Label (data df))"
    unfolding labels by (rule sorted_concat_replicate) simp
  have skip: "\<forall>e. stats (os_path_join class_dir f) = Inl e \<longrightarrow>
         class_loop stats cap class_dir label (f # rest) (rows, i, c)
           = class_loop stats cap class_dir label rest (rows, i, c)"
  proof (intro allI impI)
    fix e
    assume "stats (os_path_join class_dir f) = Inl e"
    then have "\<not> succeeds stats class_dir f"
      by (simp add: succeeds_def)
    then show "class_loop stats cap class_dir label (f # rest) (rows, i, c)
           = class_loop stats cap class_dir label rest (rows, i, c)"
      by (rule class_loop_skip)
  qed
  from ids final visited srt skip show ?thesis
    by (simp add: admitted_def)
qed

theorem C5_dense_ids_sorted_labels_witness:
  "build 2 example_stats example_dir = Some (''intel_camera_quality.csv'', example_table)
   \<and> map Image_ID (data example_table) = [0, 1, 2, 3]
   \<and> map Label (data example_table) = [''forest'', ''forest'', ''sea'', ''sea'']
   \<and> example_stats (os_path_join ''seg_train/seg_train/forest'' ''bad.png'')
       = Inl (Exception ''cannot identify image file'')
   \<and> class_loop example_stats 2 ''seg_train/seg_train/forest'' ''forest''
        [''bad.png'', ''f2.jpeg''] ([], 1, 1)
       = class_loop example_stats 2 ''seg_train/seg_train/forest'' ''forest''
        [''f2.jpeg''] ([], 1, 1)"
proof -
  have h: "build 2 example_stats example_dir = Some (''intel_camera_quality.csv'', example_table)"
    by code_simp
  have bad: "example_stats (os_path_join ''seg_train/seg_train/forest'' ''bad.png'')
       = Inl (Exception ''cannot identify image file'')"
    by code_simp
  have ids: "map int [0..<length (data example_table)] = [0, 1, 2, 3]"
    by code_simp
  have labels: "map Label (data example_table) = [''forest'', ''forest'', ''sea'', ''sea'']"
    by code_simp
  show ?thesis
    using C5_dense_ids_sorted_labels [OF h, of "''seg_train/seg_train/forest''" "''bad.png''"
        "''forest''" "[''f2.jpeg'']" "[]" 1 1] h bad ids labels
    by simp
qed

text \<open>
  C6. When \<^verbatim>\<open>TRAIN_DIR\<close> does not exist or is no directory, the builder returns before
  it writes anything: no file is left, so no table and no row.
\<close>

theorem C6_missing_directory:
  assumes "\<not> isdir t"
  shows "build cap stats t = None \<and> main stats t = None"
  using assms by (simp add: build_def main_def)

theorem C6_missing_directory_witness:
  "\<not> isdir None \<and> main example_stats None = None
   \<and> \<not> isdir (Some File) \<and> main example_stats (Some File) = None"
proof -
  have h1: "\<not> isdir None" by (simp add: isdir_def)
  have h2: "\<not> isdir (Some File)" by (simp add: isdir_def)
  show ?thesis
    using C6_missing_directory [OF h1, of IMAGES_PER_CLASS example_stats]
      C6_missing_directory [OF h2, of IMAGES_PER_CLASS example_stats] h1 h2
    by simp
qed

text \<open>
  C7. When the extraction of an image raises, \<^verbatim>\<open>compute_brightness_and_contrast\<close>
  returns \<^verbatim>\<open>(None, None)\<close>. The run on an existing directory still writes its table,
  the path of that image is in no row, and the \<^verbatim>\<open>Filepath\<close> column lists, class by
  class in sorted order, the first \<open>cap\<close> successfully processed files of each class
  directory, once each; every row carries the values the extraction returned for its path.
\<close>

theorem C7_failed_extraction_skipped:
  assumes "isdir t" and "stats p = Inl e"
  shows "compute_brightness_and_contrast stats p = (None, None)
    \<and> (\<exists>df. build cap stats t = Some (''intel_camera_quality.csv'', df)
          \<and> p \<notin> set (map Filepath (data df))
          \<and> map Filepath (data df)
              = concat (map (\<lambda>l. map (os_path_join (os_path_join TRAIN_DIR l))
                    (take (nat cap) (filter (succeeds stats (os_path_join TRAIN_DIR l))
                                       (listdir (child t l)))))
                  (sort (listdir t)))
          \<and> (\<forall>r \<in> set (data df). stats (Filepath r) = Inr (Brightness r, Contrast r)))"
proof -
  let ?df = "DataFrame (all_rows stats cap t 0 (sort (listdir t)))"
  have b: "build cap stats t = Some (''intel_camera_quality.csv'', ?df)"
    using assms(1) by (rule build_eq)
  have ok: "\<forall>r \<in> set (data ?df). stats (Filepath r) = Inr (Brightness r, Contrast r)"
    by (auto simp: DataFrame_def dest: all_rows_stats)
  have "p \<notin> set (map Filepath (data ?df))"
  proof
    assume "p \<in> set (map Filepath (data ?df))"
    then obtain r where "r \<in> set (data ?df)" "Filepath r = p" by auto
    with ok have "stats p = Inr (Brightness r, Contrast r)" by auto
    with assms(2) show False by simp
  qed
  moreover have "map Filepath (data ?df)
      = concat (map (\<lambda>l. map (os_path_join (os_path_join TRAIN_DIR l))
                    (take (nat cap) (filter (succeeds stats (os_path_join TRAIN_DIR l))
                                       (listdir (child t l)))))
                  (sort (listdir t)))"
    by (simp add: DataFrame_def all_rows_paths admitted_def)
  moreover have "compute_brightness_and_contrast stats p = (None, None)"
    using assms(2) by (simp add: compute_brightness_and_contrast_def)
  ultimately show ?thesis using b ok by blast
qed

theorem C7_failed_extraction_skipped_witness:
  "isdir example_dir
   \<and> example_stats ''seg_train/seg_train/forest/bad.png''
       = Inl (Exception ''cannot identify image file'')
   \<and> compute_brightness_and_contrast example_stats ''seg_train/seg_train/forest/bad.png''
       = (None, None)
   \<and> build 2 example_stats example_dir = Some (''intel_camera_quality.csv'', example_table)
   \<and> ''seg_train/seg_train/forest/bad.png'' \<notin> set (map Filepath (data example_table))"
proof -
  have h1: "isdir example_dir" by code_simp
  have h2: "example_stats ''seg_train/seg_train/forest/bad.png''
       = Inl (Exception ''cannot identify image file'')"
    by code_simp
  have h3: "build 2 example_stats example_dir = Some (''intel_camera_quality.csv'', example_table)"
    by code_simp
  from C7_failed_extraction_skipped [where t = example_dir and stats = example_stats
        and p = "''seg_train/seg_train/forest/bad.png''"
        and e = "Exception ''cannot identify image file''" and cap = 2, OF h1 h2]
  obtain df where c: "compute_brightness_and_contrast example_stats
        ''seg_train/seg_train/forest/bad.png'' = (None, None)"
    and b: "build 2 example_stats example_dir = Some (''intel_camera_quality.csv'', df)"
    and n: "''seg_train/seg_train/forest/bad.png'' \<notin> set (map Filepath (data df))"
    by blast
  from b h3 have "df = example_table" by simp
  with h1 h2 h3 c n show ?thesis by blast
qed


section \<open>Properties of the summary\<close>

lemma bitlen_powi:
  assumes "0 < p"
  shows "(2::rat) powi (bitlen p - 1) \<le> of_int p" and "of_int p < (2::rat) powi bitlen p"
proof -
  from assms have b: "1 \<le> bitlen p"
    by (simp add: bitlen_alt_def)
  from bitlen_bounds [OF assms] have lo: "2 ^ nat (bitlen p - 1) \<le> p" and hi: "p < 2 ^ nat (bitlen p)"
    by simp_all
  have "(of_int (2 ^ nat (bitlen p - 1)) :: rat) \<le> of_int p"
    using lo by (simp only: of_int_le_iff)
  then show "(2::rat) powi (bitlen p - 1) \<le> of_int p"
    using b by (simp add: power_int_def)
  have "(of_int p :: rat) < of_int (2 ^ nat (bitlen p))"
    using hi by (simp only: of_int_less_iff)
  then show "of_int p < (2::rat) powi bitlen p"
    using b by (simp add: power_int_def)
qed

lemma floor_log2_bounds:
  assumes "0 < x"
  shows "2 powi floor_log2 x \<le> x" and "x < 2 powi (floor_log2 x + 1)"
proof -
  obtain p q where pq: "quotient_of x = (p, q)" by (cases "quotient_of x")
  then have q: "0 < q" and x: "x = of_int p / of_int q"
    by (simp_all add: quotient_of_denom_pos quotient_of_div)
  from assms x q have p: "0 < p"
    by (simp add: zero_less_divide_iff)
  let ?k = "bitlen p - bitlen q"
  have qpos: "(0::rat) < of_int q" using q by simp
  have upper: "x < 2 powi (?k + 1)"
  proof -
    have "of_int p < (2::rat) powi bitlen p" using p by (rule bitlen_powi)
    moreover have "(2::rat) powi (bitlen q - 1) \<le> of_int q" using q by (rule bitlen_powi)
    ultimately have "of_int p * (2::rat) powi (bitlen q - 1) < 2 powi bitlen p * of_int q"
      by (intro mult_less_le_imp_less) (use p in simp_all)
    then have "x < 2 powi bitlen p / 2 powi (bitlen q - 1)"
      using qpos by (simp add: x field_simps)
    also have "\<dots> = 2 powi (?k + 1)"
      by (simp add: power_int_diff [symmetric] algebra_simps)
    finally show ?thesis .
  qed
  have lower: "2 powi (?k - 1) < x"
  proof -
    have "(2::rat) powi (bitlen p - 1) \<le> of_int p" using p by (rule bitlen_powi)
    moreover have "of_int q < (2::rat) powi bitlen q" using q by (rule bitlen_powi)
    ultimately have "(2::rat) powi (bitlen p - 1) * of_int q < of_int p * 2 powi bitlen q"
      by (intro mult_le_less_imp_less) (use q in simp_all)
    then have "2 powi (bitlen p - 1) / 2 powi bitlen q < x"
      using qpos by (simp add: x field_simps)
    moreover have "2 powi (bitlen p - 1) / 2 powi bitlen q = (2::rat) powi (?k - 1)"
      by (simp add: power_int_diff [symmetric] algebra_simps)
    ultimately show ?thesis by simp
  qed
  have fl: "floor_log2 x = (if 2 powi ?k \<le> x then ?k else ?k - 1)"
    by (simp add: floor_log2_def pq Let_def)
  show "2 powi floor_log2 x \<le> x"
    using lower by (simp add: fl)
  show "x < 2 powi (floor_log2 x + 1)"
    using upper by (auto simp: fl not_le)
qed

lemma round_half_even_near: "\<bar>of_int (round_half_even x) - x\<bar> \<le> 1 / 2"
proof -
  have "of_int \<lfloor>x\<rfloor> \<le> x" "x < of_int \<lfloor>x\<rfloor> + 1"
    by linarith+
  then show ?thesis
    unfolding round_half_even_def Let_def by (simp add: abs_if) linarith
qed

lemma round_half_even_nonneg: "0 \<le> x \<Longrightarrow> 0 \<le> round_half_even x"
  unfolding round_half_even_def Let_def by (auto simp: zero_le_floor) 

lemma round_half_even_int: "round_half_even (of_int k) = k"
  by (simp add: round_half_even_def)

lemma float64_round_error:
  "\<bar>float64_round x - x\<bar> \<le> \<bar>x\<bar> / 2 ^ 53"
proof (cases "x = 0")
  case True
  then show ?thesis by (simp add: float64_round_def)
next
  case False
  let ?a = "\<bar>x\<bar>"
  let ?e = "floor_log2 ?a"
  let ?m = "round_half_even (?a * 2 powi (52 - ?e))"
  from False have a: "0 < ?a" by simp
  have lo: "2 powi ?e \<le> ?a" using a by (rule floor_log2_bounds)
  have fr: "float64_round x = sgn x * (of_int ?m * 2 powi (?e - 52))"
    using False by (simp add: float64_round_def Let_def mult.assoc)
  have xs: "x = sgn x * ?a"
    by (simp add: sgn_mult_abs)
  have s1: "\<bar>sgn x\<bar> = 1" using False by (simp add: abs_sgn_eq)
  have inv: "(2::rat) powi (52 - ?e) * 2 powi (?e - 52) = 1"
    by (simp add: power_int_add [symmetric])
  have pos: "(0::rat) < 2 powi (?e - 52)" by simp
  have "\<bar>of_int ?m - ?a * 2 powi (52 - ?e)\<bar> \<le> 1 / 2"
    by (rule round_half_even_near)
  then have "\<bar>of_int ?m - ?a * 2 powi (52 - ?e)\<bar> * 2 powi (?e - 52) \<le> 1 / 2 * 2 powi (?e - 52)"
    using pos by (intro mult_right_mono) simp_all
  moreover have "\<bar>of_int ?m - ?a * 2 powi (52 - ?e)\<bar> * 2 powi (?e - 52)
      = \<bar>of_int ?m * 2 powi (?e - 52) - ?a\<bar>"
  proof -
    have "\<bar>of_int ?m - ?a * 2 powi (52 - ?e)\<bar> * 2 powi (?e - 52)
        = \<bar>(of_int ?m - ?a * 2 powi (52 - ?e)) * 2 powi (?e - 52)\<bar>"
      using pos by (simp add: abs_mult)
    also have "(of_int ?m - ?a * 2 powi (52 - ?e)) * 2 powi (?e - 52)
        = of_int ?m * 2 powi (?e - 52) - ?a * (2 powi (52 - ?e) * 2 powi (?e - 52))"
      by (simp add: algebra_simps)
    finally show ?thesis by (simp only: inv mult_1_right)
  qed
  moreover have "1 / 2 * (2::rat) powi (?e - 52) = 2 powi ?e / 2 ^ 53"
  proof -
    have "(2::rat) powi (?e - 52) = 2 powi ?e / 2 powi 52"
      by (rule power_int_diff) simp
    then show ?thesis by simp
  qed
  ultimately have "\<bar>of_int ?m * 2 powi (?e - 52) - ?a\<bar> \<le> 2 powi ?e / 2 ^ 53"
    by simp
  also have "\<dots> \<le> ?a / 2 ^ 53"
    using lo by (simp add: divide_right_mono)
  finally have main: "\<bar>of_int ?m * 2 powi (?e - 52) - ?a\<bar> \<le> ?a / 2 ^ 53" .
  have "float64_round x - x = sgn x * (of_int ?m * 2 powi (?e - 52) - ?a)"
    using xs by (simp add: fr algebra_simps)
  then have "\<bar>float64_round x - x\<bar> = \<bar>of_int ?m * 2 powi (?e - 52) - ?a\<bar>"
    using s1 by (simp add: abs_mult)
  with main show ?thesis by simp
qed

lemma float64_round_nonneg: "0 \<le> x \<Longrightarrow> 0 \<le> float64_round x"
  by (auto simp: float64_round_def Let_def intro!: mult_nonneg_nonneg round_half_even_nonneg)

lemma failure_rate_error:
  fixes f t :: rat
  assumes "0 \<le> f" and "f \<le> t" and "0 < t"
  shows "\<bar>float_mul (float_div f t) 100 - f / t * 100\<bar> \<le> 1 / 2 ^ 44"
proof -
  define q where "q = f / t"
  define d where "d = float64_round q"
  define r where "r = float64_round (d * 100)"
  from assms have q0: "0 \<le> q" and q1: "q \<le> 1"
    by (simp_all add: q_def)
  have "\<bar>d - q\<bar> \<le> \<bar>q\<bar> / 2 ^ 53"
    unfolding d_def by (rule float64_round_error)
  also have "\<dots> \<le> 1 / 2 ^ 53"
    using q0 q1 by (intro divide_right_mono) simp_all
  finally have e1: "\<bar>d - q\<bar> \<le> 1 / 2 ^ 53" .
  have d0: "0 \<le> d"
    unfolding d_def using q0 by (rule float64_round_nonneg)
  have "(1::rat) / 2 ^ 53 \<le> 1"
    by simp
  with e1 have "\<bar>d - q\<bar> \<le> 1"
    by (rule order_trans)
  with q1 have d2: "d \<le> 2"
    by linarith
  have "\<bar>r - d * 100\<bar> \<le> \<bar>d * 100\<bar> / 2 ^ 53"
    unfolding r_def by (rule float64_round_error)
  also have "\<dots> \<le> 200 / 2 ^ 53"
    using d0 d2 by (intro divide_right_mono) simp_all
  finally have e2: "\<bar>r - d * 100\<bar> \<le> 200 / 2 ^ 53" .
  have "\<bar>r - q * 100\<bar> \<le> \<bar>r - d * 100\<bar> + \<bar>d - q\<bar> * 100"
    by (simp add: abs_if split: if_splits)
  also have "\<dots> \<le> 200 / 2 ^ 53 + 1 / 2 ^ 53 * 100"
    using e1 e2 by (intro add_mono mult_right_mono) simp_all
  also have "\<dots> \<le> 1 / 2 ^ 44"
    by simp
  finally show ?thesis
    by (simp add: r_def d_def q_def float_mul_def float_div_def)
qed

lemma fmt_2f_nearest:
  assumes "0 \<le> x"
  shows "\<exists>h. fmt_2f x = str_nat (nat (h div 100)) @ ''.'' @ str_nat (nat (h mod 100 div 10))
                  @ str_nat (nat (h mod 10))
            \<and> 0 \<le> h \<and> \<bar>of_int h / 100 - x\<bar> \<le> 1 / 200"
proof -
  let ?h = "round_half_even (x * 100)"
  have "\<bar>of_int ?h - x * 100\<bar> \<le> 1 / 2"
    by (rule round_half_even_near)
  then have "\<bar>of_int ?h / 100 - x\<bar> \<le> 1 / 200"
    by (simp add: abs_le_iff field_simps)
  moreover have "0 \<le> ?h"
    using assms by (simp add: round_half_even_nonneg)
  moreover have "fmt_2f x = str_nat (nat (?h div 100)) @ ''.'' @ str_nat (nat (?h mod 100 div 10))
                  @ str_nat (nat (?h mod 10))"
    using assms by (simp add: fmt_2f_def Let_def)
  ultimately show ?thesis by blast
qed

lemma status_pass_or_fail:
  "fst (classify_row r) = ''PASS'' \<longleftrightarrow> fst (classify_row r) \<noteq> ''FAIL''"
  by (simp add: classify_row_def Let_def)

lemma fmt_2f_zero: "fmt_2f 0 = ''0.00''"
  by code_simp

lemma float_rate_zero: "float_mul (float_div 0 t) 100 = 0"
  by (simp add: float_mul_def float_div_def float64_round_def)

lemma float64_round_examples:
  "float64_round (1 / 10) = 3602879701896397 / 36028797018963968"
  "float64_round (2 ^ 53 + 1) = 2 ^ 53"
  "float64_round (2 ^ 53 + 3) = 2 ^ 53 + 4"
  "float64_round (- (1 / 3)) = - (6004799503160661 / 18014398509481984)"
  "float_mul (float_div 1 3) 100 = 2345624805922133 / 70368744177664"
  by code_simp+

lemma fmt_2f_examples:
  "fmt_2f 0 = ''0.00''"
  "fmt_2f 50 = ''50.00''"
  "fmt_2f 100 = ''100.00''"
  "fmt_2f (25 / 8) = ''3.12''"
  "fmt_2f (75 / 8) = ''9.38''"
  "fmt_2f (2345624805922133 / 70368744177664) = ''33.33''"
  "fmt_2f (- (1 / 1000)) = ''-0.00''"
  by code_simp+

text \<open>
  The printed rate is not always the exact rate rendered to two decimal places. With 23
  failed rows of 160 the exact rate is 14.375, which renders as \<^verbatim>\<open>14.38\<close>; the float is
  just below it and the report prints \<^verbatim>\<open>14.37\<close>. With 49 of 160 the exact rate is 30.625,
  which renders as \<^verbatim>\<open>30.62\<close>; the float is just above and the report prints
  \<^verbatim>\<open>30.63\<close>.
\<close>

theorem C8_rate_text_counterexample:
  "analyze (example_frame 23 160)
     = Inr \<lparr>total = 160, failed = 23, passed = 137,
            failure_rate = 8092405580431359 / 562949953421312\<rparr>
   \<and> failure_rate_line \<lparr>total = 160, failed = 23, passed = 137,
                         failure_rate = 8092405580431359 / 562949953421312\<rparr>
       = ''Failure rate: 14.37%''
   \<and> claimed_rate_text 23 160 = ''14.38''
   \<and> analyze (example_frame 49 160)
     = Inr \<lparr>total = 160, failed = 49, passed = 111,
            failure_rate = 8620171161763841 / 281474976710656\<rparr>
   \<and> failure_rate_line \<lparr>total = 160, failed = 49, passed = 111,
                         failure_rate = 8620171161763841 / 281474976710656\<rparr>
       = ''Failure rate: 30.63%''
   \<and> claimed_rate_text 49 160 = ''30.62''"
  by code_simp

text \<open>
  C8, as the code has it. When the analyzer reaches its summary, the table has rows and
  passed + failed = total, with total the number of rows, failed the number of rows with
  status \<^verbatim>\<open>FAIL\<close> and passed the number with status \<^verbatim>\<open>PASS\<close>. The failure rate is
  the float64 result of \<^verbatim>\<open>failed / total * 100\<close>: the rounded quotient times 100, rounded
  again. It is not negative and differs from the exact value of failed / total * 100 by at
  most \<open>2\<^sup>-\<^sup>4\<^sup>4\<close>. The report prints the number with two decimals that is nearest to this
  float, so the printed rate is within 0.005 of the float; no failed row prints
  \<^verbatim>\<open>0.00\<close>. The table is taken shorter than \<open>2\<^sup>5\<^sup>3\<close> rows.
\<close>

theorem C8_summary_counts:
  assumes "analyze df = Inr s" and "int (length (data df)) < 2 ^ 53"
  shows "0 < total s
    \<and> total s = int (length (data df))
    \<and> passed s + failed s = total s
    \<and> failed s = int (length (filter (\<lambda>r. fst (classify_row r) = ''FAIL'') (data df)))
    \<and> passed s = int (length (filter (\<lambda>r. fst (classify_row r) = ''PASS'') (data df)))
    \<and> failure_rate s = float_mul (float_div (of_int (failed s)) (of_int (total s))) 100
    \<and> 0 \<le> failure_rate s
    \<and> \<bar>failure_rate s - of_int (failed s) / of_int (total s) * 100\<bar> \<le> 1 / 2 ^ 44
    \<and> (\<exists>h. failure_rate_line s
              = ''Failure rate: '' @ str_nat (nat (h div 100)) @ ''.''
                  @ str_nat (nat (h mod 100 div 10)) @ str_nat (nat (h mod 10)) @ ''%''
            \<and> 0 \<le> h \<and> \<bar>of_int h / 100 - failure_rate s\<bar> \<le> 1 / 200)
    \<and> (failed s = 0 \<longrightarrow> failure_rate_line s = ''Failure rate: 0.00%'')"
proof -
  let ?rows = "data df"
  let ?F = "filter (\<lambda>r. fst (classify_row r) = ''FAIL'') ?rows"
  let ?P = "filter (\<lambda>r. fst (classify_row r) = ''PASS'') ?rows"
  from assms(1) have ne: "?rows \<noteq> []"
    by (auto simp: analyze_def split: if_splits)
  from assms(1) have s: "s = summarise (map fst (map classify_row ?rows))"
    by (auto simp: analyze_def Let_def split: if_splits)
  have t: "total s = int (length ?rows)"
    by (simp add: s summarise_def Let_def)
  have tpos: "0 < total s"
    using ne by (simp add: t)
  have f: "failed s = int (length ?F)"
    by (simp add: s summarise_def Let_def filter_map comp_def)
  have p: "passed s = total s - failed s"
    by (simp add: s summarise_def Let_def)
  have "length ?P + length ?F = length ?rows"
    using sum_length_filter_compl [of "\<lambda>r. fst (classify_row r) = ''PASS''" ?rows]
    by (simp add: status_pass_or_fail)
  then have p': "passed s = int (length ?P)"
    using p t f by simp
  have le: "failed s \<le> total s"
    using t f by simp
  have f0: "0 \<le> failed s"
    using f by simp
  have r: "failure_rate s = float_mul (float_div (of_int (failed s)) (of_int (total s))) 100"
    using ne by (simp add: s summarise_def Let_def)
  have r0: "0 \<le> failure_rate s"
    unfolding r float_mul_def float_div_def using f0 tpos
    by (intro float64_round_nonneg mult_nonneg_nonneg divide_nonneg_nonneg) simp_all
  have err: "\<bar>failure_rate s - of_int (failed s) / of_int (total s) * 100\<bar> \<le> 1 / 2 ^ 44"
    unfolding r using f0 le tpos by (intro failure_rate_error) simp_all
  from fmt_2f_nearest [OF r0] obtain h where
    h: "fmt_2f (failure_rate s) = str_nat (nat (h div 100)) @ ''.''
          @ str_nat (nat (h mod 100 div 10)) @ str_nat (nat (h mod 10))"
      "0 \<le> h" "\<bar>of_int h / 100 - failure_rate s\<bar> \<le> 1 / 200"
    by blast
  have line: "\<exists>h. failure_rate_line s
              = ''Failure rate: '' @ str_nat (nat (h div 100)) @ ''.''
                  @ str_nat (nat (h mod 100 div 10)) @ str_nat (nat (h mod 10)) @ ''%''
            \<and> 0 \<le> h \<and> \<bar>of_int h / 100 - failure_rate s\<bar> \<le> 1 / 200"
    using h by (intro exI [of _ h]) (simp add: failure_rate_line_def)
  have zero: "failed s = 0 \<longrightarrow> failure_rate_line s = ''Failure rate: 0.00%''"
    by (simp add: failure_rate_line_def r float_rate_zero fmt_2f_zero)
  from tpos t p f p' r r0 err line zero show ?thesis
    by simp
qed

theorem C8_summary_counts_witness:
  "analyze (example_frame 1 32)
     = Inr \<lparr>total = 32, failed = 1, passed = 31, failure_rate = 25 / 8\<rparr>
   \<and> int (length (data (example_frame 1 32))) < 2 ^ 53
   \<and> failure_rate_line \<lparr>total = 32, failed = 1, passed = 31, failure_rate = 25 / 8\<rparr>
       = ''Failure rate: 3.12%''
   \<and> analyze (example_frame 0 5)
     = Inr \<lparr>total = 5, failed = 0, passed = 5, failure_rate = 0\<rparr>
   \<and> int (length (data (example_frame 0 5))) < 2 ^ 53
   \<and> failure_rate_line \<lparr>total = 5, failed = 0, passed = 5, failure_rate = 0\<rparr>
       = ''Failure rate: 0.00%''"
proof -
  have a1: "analyze (example_frame 1 32)
     = Inr \<lparr>total = 32, failed = 1, passed = 31, failure_rate = 25 / 8\<rparr>"
    by code_simp
  have b1: "int (length (data (example_frame 1 32))) < 2 ^ 53"
    by (simp add: example_frame_def)
  have a0: "analyze (example_frame 0 5)
     = Inr \<lparr>total = 5, failed = 0, passed = 5, failure_rate = 0\<rparr>"
    by code_simp
  have b0: "int (length (data (example_frame 0 5))) < 2 ^ 53"
    by (simp add: example_frame_def)
  have l1: "failure_rate_line \<lparr>total = 32, failed = 1, passed = 31, failure_rate = 25 / 8\<rparr>
       = ''Failure rate: 3.12%''"
    using C8_summary_counts [OF a1 b1] by (simp add: failure_rate_line_def fmt_2f_examples)
  have l0: "failure_rate_line \<lparr>total = 5, failed = 0, passed = 5, failure_rate = 0\<rparr>
       = ''Failure rate: 0.00%''"
    using C8_summary_counts [OF a0 b0] by simp
  from a1 b1 l1 a0 b0 l0 show ?thesis by blast
qed


section \<open>A run without any image\<close>

text \<open>
  C9. A run in which no image is successfully processed: the only image of the only class
  directory cannot be decoded. The builder writes a table without rows, and this table
  has no column names at all; it is not the table with the header \<^verbatim>\<open>Image_ID\<close>,
  \<^verbatim>\<open>Filepath\<close>, \<^verbatim>\<open>Label\<close>, \<^verbatim>\<open>Brightness\<close>, \<^verbatim>\<open>Contrast\<close> and no rows.
\<close>

theorem C9_empty_run_has_no_header:
  "main (Inl \<circ> Exception) (Some (Dir [(''forest'', Dir [(''a.jpg'', File)])]))
     = Some (''intel_camera_quality.csv'', \<lparr>columns = [], data = []\<rparr>)
   \<and> main (Inl \<circ> Exception) (Some (Dir [(''forest'', Dir [(''a.jpg'', File)])]))
     \<noteq> Some (''intel_camera_quality.csv'',
         \<lparr>columns = [''Image_ID'', ''Filepath'', ''Label'', ''Brightness'', ''Contrast''],
          data = []\<rparr>)"
proof -
  have "main (Inl \<circ> Exception) (Some (Dir [(''forest'', Dir [(''a.jpg'', File)])]))
     = Some (''intel_camera_quality.csv'', \<lparr>columns = [], data = []\<rparr>)"
    by code_simp
  then show ?thesis by simp
qed

text \<open>The same holds for every run that yields no row.\<close>

lemma build_without_rows:
  assumes "build cap stats t = Some (name, df)" and "data df = []"
  shows "columns df = []"
  using assms by (simp add: build_SomeD)

text \<open>
  The analyzer does not get to its summary on a table without rows, and not past
  \<^verbatim>\<open>read_csv\<close> on the table of such a run. The expressions of the summary and of the
  breakdown, taken by themselves, give a rate of 0 and no breakdown for no rows.
\<close>

lemma analyze_no_rows: "data df = [] \<Longrightarrow> isl (analyze df)"
  by (simp add: analyze_def)

lemma analyze_empty_run:
  "analyze \<lparr>columns = [], data = []\<rparr> = Inl (Exception ''EmptyDataError'')"
  by (simp add: analyze_def)

lemma summary_of_no_rows:
  "summarise [] = \<lparr>total = 0, failed = 0, passed = 0, failure_rate = 0\<rparr>"
  "reason_breakdown [] = None"
  by (simp_all add: summarise_def reason_breakdown_def)

end
